theory Spec2Isabelle
  imports Complex_Main
begin

section \<open>The agent-connect tool module (agent_connect_tool.py)\<close>

text \<open>
  The module is a shim around an external node/session library, the \<open>json\<close> module and
  the \<open>os\<close> module. Its own code is embedded function by function; what the external
  objects do when called is part of the objects passed in (a session carries the outcome
  of its own methods), and the state the code changes (file system, standard output, the
  node's identity) is passed in and returned.
\<close>

subsection \<open>Exceptions raised by the node/session library\<close>

text \<open>
  An exception object as the handlers of the tool functions see it: the name of its
  class, whether it is an instance of \<open>Exception\<close> (the class the handlers name;
  \<open>KeyboardInterrupt\<close>, \<open>SystemExit\<close>, \<open>GeneratorExit\<close> and
  \<open>asyncio.CancelledError\<close> derive from \<open>BaseException\<close> only), and the text
  that \<open>str(e)\<close> gives, which the f-strings print.
\<close>

record exc =
  exc_type :: string
  is_Exception :: bool
  exc_text :: string

subsection \<open>Sessions and the node\<close>

datatype message = Text string | Bytes string

text \<open>
  \<open>SimpleNodeSession\<close>: the attribute \<open>remote_did\<close>, the outcome of awaiting
  \<open>send_message(message)\<close> and \<open>receive_message()\<close> (\<open>Inl\<close> an exception raised,
  \<open>Inr\<close> the value returned; \<open>None\<close> is Python's \<open>None\<close>), and the truth value
  Python gives the object in \<open>if session:\<close>.
\<close>

record session =
  remote_did :: string
  session_send_message :: "message \<Rightarrow> exc + bool"
  session_receive_message :: "exc + string option"
  session_bool :: bool

subsection \<open>Values read by \<open>json.load\<close>\<close>

datatype json =
    JNull
  | JBool bool
  | JInt int
  | JFloat real
  | JString string
  | JArray "json list"
  | JObject "(string \<times> json) list"

text \<open>
  \<open>SimpleNode\<close>: the identity last given to \<open>set_did_info\<close>, the number of
  identities \<open>generate_did_document\<close> has produced so far with the identities it
  produces (a fresh one at every call), and the outcome of awaiting
  \<open>connect_to_did(destination_did)\<close>.
\<close>

record node =
  identity :: "(json \<times> json \<times> json) option"
  generated :: nat
  did_source :: "nat \<Rightarrow> string \<times> string \<times> string"
  connect_to_did :: "string \<Rightarrow> exc + session option"

definition set_did_info :: "node \<Rightarrow> json \<Rightarrow> json \<Rightarrow> json \<Rightarrow> node" where
  "set_did_info n private_key_pem did did_document_json =
     n\<lparr>identity := Some (private_key_pem, did, did_document_json)\<rparr>"

definition generate_did_document :: "node \<Rightarrow> (string \<times> string \<times> string) \<times> node" where
  "generate_did_document n = (did_source n (generated n), n\<lparr>generated := Suc (generated n)\<rparr>)"

subsection \<open>The three tools\<close>

text \<open>
  Each tool returns the outcome of the call (\<open>Inl e\<close>: the exception \<open>e\<close> leaves the
  tool) and the lines it printed. The module-level node is a parameter.
\<close>

definition connect_to_agent :: "node \<Rightarrow> string \<Rightarrow> (exc + session option) \<times> string list" where
  "connect_to_agent agent_connect_simple_node destination_did =
     (case connect_to_did agent_connect_simple_node destination_did of
        Inr None \<Rightarrow> (Inr None, [])
      | Inr (Some s) \<Rightarrow>
          if session_bool s
          then (Inr (Some s), [''Successfully connected to agent: '' @ destination_did])
          else (Inr None, [])
      | Inl e \<Rightarrow>
          if is_Exception e
          then (Inr None, [''Failed to connect to agent: '' @ exc_text e])
          else (Inl e, []))"

definition send_message :: "session \<Rightarrow> message \<Rightarrow> (exc + bool) \<times> string list" where
  "send_message s m =
     (case session_send_message s m of
        Inr success \<Rightarrow>
          if success
          then (Inr True, [''Successfully sent message to '' @ remote_did s])
          else (Inr False, [''Failed to send message to '' @ remote_did s])
      | Inl e \<Rightarrow>
          if is_Exception e
          then (Inr False, [''Failed to send message: '' @ exc_text e])
          else (Inl e, []))"

definition receive_message :: "session \<Rightarrow> (exc + string option) \<times> string list" where
  "receive_message s = (session_receive_message s, [])"

subsection \<open>The file system and standard output\<close>

text \<open>
  What the \<open>os\<close> calls and \<open>open\<close> see: a path names a directory, a regular file
  with its text, or nothing. Paths are POSIX paths and are looked up as written: the
  operating system resolves empty, \<open>.\<close> and \<open>..\<close> components before it looks a name
  up, and the model does not, so it is exact for paths in normal form (\<open>normal_path\<close>
  below) and says nothing reliable about other spellings of a name. There are no symbolic
  links, permissions, quotas or limits on the length of names.
\<close>

datatype entry = Dir | File string

type_synonym filesystem = "string \<rightharpoonup> entry"

record world =
  fs :: filesystem
  stdout :: "string list"

definition print :: "string \<Rightarrow> world \<Rightarrow> world" where
  "print line w = w\<lparr>stdout := stdout w @ [line]\<rparr>"

text \<open>The exceptions the credential routine can meet, none of which it catches.\<close>

datatype error =
    JSONDecodeError
  | KeyError string
  | TypeError
  | FileNotFoundError
  | FileExistsError
  | NotADirectoryError
  | IsADirectoryError

text \<open>
  \<open>os.path.exists\<close>, with the path looked up as written: exact for paths in normal
  form. The empty path names nothing.
\<close>

definition path_exists :: "filesystem \<Rightarrow> string \<Rightarrow> bool" where
  "path_exists f p = (p \<noteq> [] \<and> f p \<noteq> None)"

definition is_file :: "filesystem \<Rightarrow> string \<Rightarrow> bool" where
  "is_file f p = (case f p of Some (File text) \<Rightarrow> True | _ \<Rightarrow> False)"

text \<open>
  \<open>os.path.dirname\<close> (posixpath): the part up to the last separator, without its
  trailing separators unless it consists of separators only.
\<close>

definition rstrip_sep :: "string \<Rightarrow> string" where
  "rstrip_sep s = rev (dropWhile (\<lambda>c. c = CHR ''/'') (rev s))"

definition dirname :: "string \<Rightarrow> string" where
  "dirname p =
     (let head = rev (dropWhile (\<lambda>c. c \<noteq> CHR ''/'') (rev p))
      in if head \<noteq> [] \<and> head \<noteq> replicate (length head) (CHR ''/'')
         then rstrip_sep head else head)"

text \<open>\<open>dirname\<close> never lengthens a path, so climbing with it ends.\<close>

lemma length_dirname_le: "length (dirname p) \<le> length p"
proof -
  have a: "length (rev (dropWhile (\<lambda>c. c \<noteq> CHR ''/'') (rev p))) \<le> length p"
    using length_dropWhile_le [of "\<lambda>c. c \<noteq> CHR ''/''" "rev p"] by simp
  have b: "length (rstrip_sep s) \<le> length s" for s
    using length_dropWhile_le [of "\<lambda>c. c = CHR ''/''" "rev s"] by (simp add: rstrip_sep_def)
  show ?thesis
    using a b [of "rev (dropWhile (\<lambda>c. c \<noteq> CHR ''/'') (rev p))"]
    by (simp add: dirname_def Let_def del: length_rev)
qed

text \<open>
  The components of a path, split at the separators, and \<open>os.path.basename\<close>, the
  last of them (empty when the path ends in a separator).
\<close>

fun components :: "string \<Rightarrow> string list" where
  "components [] = [[]]"
| "components (c # cs) =
     (if c = CHR ''/'' then [] # components cs
      else case components cs of
             [] \<Rightarrow> [[c]]
           | x # xs \<Rightarrow> (c # x) # xs)"

definition basename :: "string \<Rightarrow> string" where
  "basename p = last (components p)"

text \<open>
  A path in normal form: not empty, without a NUL character, and, after the leading
  separator of an absolute path, made of components none of which is empty, \<open>.\<close> or
  \<open>..\<close> (so no doubled or trailing separator). Such a path names a file by itself,
  and two of them that differ name different files when both are absolute or both
  relative.
\<close>

definition normal_path :: "string \<Rightarrow> bool" where
  "normal_path p =
     (p \<noteq> [] \<and> CHR 0x00 \<notin> set p
      \<and> list_all (\<lambda>c. c \<noteq> [] \<and> c \<noteq> ''.'' \<and> c \<noteq> ''..'')
           (if hd p = CHR ''/'' then tl (components p) else components p))"

text \<open>A directory and the directories above it, as far as \<open>dirname\<close> leads.\<close>

function ancestors :: "string \<Rightarrow> string list" where
  "ancestors d =
     (if d = [] then []
      else if length (dirname d) < length d then d # ancestors (dirname d)
      else [d])"
  by pat_completeness auto
termination
  by (relation "measure length") simp_all

declare ancestors.simps [simp del]

text \<open>
  \<open>os.makedirs(name, exist_ok=True)\<close>: the empty name is refused
  (\<open>FileNotFoundError\<close>), a regular file at \<open>name\<close> or above it is in the way, and
  otherwise \<open>name\<close> and every directory above it exist afterwards.
\<close>

definition makedirs :: "filesystem \<Rightarrow> string \<Rightarrow> error + filesystem" where
  "makedirs f name =
     (if name = [] then Inl FileNotFoundError
      else if is_file f name then Inl FileExistsError
      else if list_ex (is_file f) (ancestors name) then Inl NotADirectoryError
      else Inr (\<lambda>p. if p \<in> set (ancestors name) then Some Dir else f p))"

text \<open>
  \<open>with open(p, "w") as f:\<close> followed by the write of \<open>text\<close>: the directory of
  \<open>p\<close> must exist, \<open>p\<close> must not name a directory (as a path does whose last
  component is empty, \<open>.\<close> or \<open>..\<close>); the file then holds \<open>text\<close>.
\<close>

definition write_file :: "filesystem \<Rightarrow> string \<Rightarrow> string \<Rightarrow> error + filesystem" where
  "write_file f p text =
     (if p = [] then Inl FileNotFoundError
      else if dirname p \<noteq> [] \<and> f (dirname p) = None then Inl FileNotFoundError
      else if dirname p \<noteq> [] \<and> is_file f (dirname p) then Inl NotADirectoryError
      else if basename p = [] \<or> basename p = ''.'' \<or> basename p = ''..'' \<or> f p = Some Dir
           then Inl IsADirectoryError
      else Inr (f(p \<mapsto> File text)))"

text \<open>\<open>with open(p, "r") as f:\<close> followed by reading all of it.\<close>

definition open_read :: "filesystem \<Rightarrow> string \<Rightarrow> error + string" where
  "open_read f p =
     (if p = [] then Inl FileNotFoundError
      else case f p of
        None \<Rightarrow> Inl FileNotFoundError
      | Some Dir \<Rightarrow> Inl IsADirectoryError
      | Some (File text) \<Rightarrow> Inr text)"

subsection \<open>The \<open>json\<close> module\<close>

text \<open>
  The parser and the printer are the library's and are parameters here:
  \<open>json_loads\<close> gives the value a text denotes (\<open>None\<close>: the text is no JSON, and
  \<open>json.load\<close> raises \<open>JSONDecodeError\<close>), \<open>json_dumps\<close> the text
  \<open>json.dump(..., indent=2)\<close> writes.
\<close>

record json_lib =
  json_loads :: "string \<Rightarrow> json option"
  json_dumps :: "json \<Rightarrow> string"

definition json_load :: "json_lib \<Rightarrow> string \<Rightarrow> error + json" where
  "json_load lib text = (case json_loads lib text of None \<Rightarrow> Inl JSONDecodeError | Some v \<Rightarrow> Inr v)"

text \<open>
  \<open>v[key]\<close> with a string key: a dict gives the value or \<open>KeyError\<close>, any other
  value \<open>TypeError\<close>.
\<close>

definition subscript :: "json \<Rightarrow> string \<Rightarrow> error + json" where
  "subscript v key =
     (case v of
        JObject items \<Rightarrow>
          (case map_of items key of None \<Rightarrow> Inl (KeyError key) | Some x \<Rightarrow> Inr x)
      | _ \<Rightarrow> Inl TypeError)"

subsection \<open>The credential routine\<close>

text \<open>
  \<open>generate_did_info(node, did_document_path)\<close> returns nothing; its result here is
  the exception that left it (\<open>Inl\<close>) or normal return, with the node and the world as
  they are at that point. The arguments of \<open>set_did_info\<close> are evaluated left to right
  before the call.
\<close>

definition generate_did_info ::
  "json_lib \<Rightarrow> node \<Rightarrow> string \<Rightarrow> world \<Rightarrow> (error + unit) \<times> node \<times> world" where
  "generate_did_info lib n did_document_path w =
     (if path_exists (fs w) did_document_path then
        (let w1 = print (''Loading existing DID information from '' @ did_document_path) w
         in case open_read (fs w1) did_document_path of
              Inl e \<Rightarrow> (Inl e, n, w1)
            | Inr text \<Rightarrow>
         (case json_load lib text of
              Inl e \<Rightarrow> (Inl e, n, w1)
            | Inr did_info \<Rightarrow>
         (case subscript did_info ''private_key_pem'' of
              Inl e \<Rightarrow> (Inl e, n, w1)
            | Inr private_key_pem \<Rightarrow>
         (case subscript did_info ''did'' of
              Inl e \<Rightarrow> (Inl e, n, w1)
            | Inr did \<Rightarrow>
         (case subscript did_info ''did_document_json'' of
              Inl e \<Rightarrow> (Inl e, n, w1)
            | Inr did_document_json \<Rightarrow>
                (Inr (), set_did_info n private_key_pem did did_document_json, w1))))))
      else
        (let w1 = print ''Generating new DID information'' w;
             ((private_key_pem, did, did_document_json), n1) = generate_did_document n;
             n2 = set_did_info n1 (JString private_key_pem) (JString did)
                    (JString did_document_json)
         in case makedirs (fs w1) (dirname did_document_path) of
              Inl e \<Rightarrow> (Inl e, n2, w1)
            | Inr fs2 \<Rightarrow>
         (case write_file fs2 did_document_path
                 (json_dumps lib
                    (JObject [(''private_key_pem'', JString private_key_pem),
                              (''did'', JString did),
                              (''did_document_json'', JString did_document_json)])) of
              Inl e \<Rightarrow> (Inl e, n2, w1\<lparr>fs := fs2\<rparr>)
            | Inr fs3 \<Rightarrow>
                (Inr (), n2,
                 print (''DID information saved to '' @ did_document_path) (w1\<lparr>fs := fs3\<rparr>)))))"

subsection \<open>The specification's vocabulary for stored records\<close>

text \<open>
  The specification calls a stored text a valid record when it parses to an object with
  the three fields \<open>private_key_pem\<close>, \<open>did\<close> and \<open>did_document_json\<close>, and
  names the failure to load one \<open>MalformedCredentialError\<close>. The code has no class
  of that name: the exceptions of parsing and of the three subscripts leave the routine
  as they are, and they are the ones gathered under the name here.
\<close>

definition has_required_fields :: "json \<Rightarrow> bool" where
  "has_required_fields v =
     (case v of
        JObject items \<Rightarrow>
          map_of items ''private_key_pem'' \<noteq> None \<and> map_of items ''did'' \<noteq> None
          \<and> map_of items ''did_document_json'' \<noteq> None
      | _ \<Rightarrow> False)"

definition valid_record :: "json_lib \<Rightarrow> string \<Rightarrow> bool" where
  "valid_record lib text =
     (case json_loads lib text of None \<Rightarrow> False | Some v \<Rightarrow> has_required_fields v)"

definition MalformedCredentialError :: "error \<Rightarrow> bool" where
  "MalformedCredentialError e =
     (case e of JSONDecodeError \<Rightarrow> True | KeyError k \<Rightarrow> True | TypeError \<Rightarrow> True | _ \<Rightarrow> False)"

subsection \<open>Example objects\<close>

definition connection_reset :: exc where
  "connection_reset =
     \<lparr>exc_type = ''ConnectionResetError'', is_Exception = True,
      exc_text = ''[Errno 104] Connection reset by peer''\<rparr>"

definition cancelled :: exc where
  "cancelled = \<lparr>exc_type = ''CancelledError'', is_Exception = False, exc_text = []\<rparr>"

definition broken_session :: session where
  "broken_session =
     \<lparr>remote_did = ''did:example:bob'',
      session_send_message = (\<lambda>m. Inl connection_reset),
      session_receive_message = Inl connection_reset,
      session_bool = True\<rparr>"

definition refusing_node :: node where
  "refusing_node =
     \<lparr>identity = None, generated = 0,
      did_source = (\<lambda>k. (''key'', ''did:example:alice'', ''{}'')),
      connect_to_did = (\<lambda>d. Inl connection_reset)\<rparr>"

definition cancelled_node :: node where
  "cancelled_node = refusing_node\<lparr>connect_to_did := (\<lambda>d. Inl cancelled)\<rparr>"

definition cancelled_session :: session where
  "cancelled_session = broken_session\<lparr>session_send_message := (\<lambda>m. Inl cancelled)\<rparr>"

definition open_session :: session where
  "open_session = broken_session\<lparr>session_send_message := (\<lambda>m. Inr True)\<rparr>"

definition falsy_session :: session where
  "falsy_session = open_session\<lparr>session_bool := False\<rparr>"

definition falsy_node :: node where
  "falsy_node = refusing_node\<lparr>connect_to_did := (\<lambda>d. Inr (Some falsy_session))\<rparr>"

definition listening_node :: node where
  "listening_node = refusing_node\<lparr>connect_to_did := (\<lambda>d. Inr (Some open_session))\<rparr>"

text \<open>
  A table standing for the \<open>json\<close> module on the texts used below, a record as
  \<open>generate_did_info\<close> writes it for the identity of \<open>refusing_node\<close>, and some
  worlds.
\<close>

definition alice_record :: json where
  "alice_record =
     JObject [(''private_key_pem'', JString ''key''), (''did'', JString ''did:example:alice''),
              (''did_document_json'', JString ''{}'')]"

definition demo_json :: json_lib where
  "demo_json =
     \<lparr>json_loads = (\<lambda>t.
        if t = ''{private_key_pem: key, did: did:example:alice, did_document_json: {}}''
        then Some alice_record
        else if t = ''{did: did:example:alice}''
        then Some (JObject [(''did'', JString ''did:example:alice'')])
        else None),
      json_dumps = (\<lambda>v.
        if v = alice_record
        then ''{private_key_pem: key, did: did:example:alice, did_document_json: {}}''
        else ''null'')\<rparr>"

definition empty_world :: world where
  "empty_world = \<lparr>fs = Map.empty, stdout = []\<rparr>"

definition blocked_world :: world where
  "blocked_world = \<lparr>fs = [''/srv'' \<mapsto> File ''data''], stdout = []\<rparr>"

definition stored_world :: world where
  "stored_world =
     \<lparr>fs = [''/srv'' \<mapsto> Dir,
            ''/srv/did.json'' \<mapsto>
              File ''{private_key_pem: key, did: did:example:alice, did_document_json: {}}''],
      stdout = []\<rparr>"

definition truncated_world :: world where
  "truncated_world = \<lparr>fs = [''/srv'' \<mapsto> Dir, ''/srv/did.json'' \<mapsto> File ''{priv''], stdout = []\<rparr>"

definition incomplete_world :: world where
  "incomplete_world =
     \<lparr>fs = [''/srv'' \<mapsto> Dir, ''/srv/did.json'' \<mapsto> File ''{did: did:example:alice}''],
      stdout = []\<rparr>"

definition alice_node :: node where
  "alice_node =
     refusing_node
       \<lparr>identity := Some (JString ''key'', JString ''did:example:alice'', JString ''{}''),
        generated := Suc 0\<rparr>"


subsection \<open>Module start: the node's constructor call\<close>

text \<open>
  The six \<open>os.getenv\<close> reads and the keyword arguments of the call
  \<open>SimpleNode(host_domain=..., new_session_callback=..., host_port=..., host_ws_path=...)\<close>.
  \<open>os.getenv\<close> gives \<open>None\<close> for an unset variable.
\<close>

type_synonym environ = "string \<rightharpoonup> string"

datatype argument = Value "string option" | Callback

definition simple_node_arguments :: "environ \<Rightarrow> (string \<times> argument) list" where
  "simple_node_arguments getenv =
     (let host_domain = getenv ''HOST_DOMAIN'';
          host_port = getenv ''HOST_PORT'';
          host_ws_path = getenv ''HOST_WS_PATH'';
          did_document_path = getenv ''DID_DOCUMENT_PATH'';
          ssl_cert_path = getenv ''SSL_CERT_PATH'';
          ssl_key_path = getenv ''SSL_KEY_PATH''
      in [(''host_domain'', Value host_domain),
          (''new_session_callback'', Callback),
          (''host_port'', Value host_port),
          (''host_ws_path'', Value host_ws_path)])"

definition tls_environ :: environ where
  "tls_environ =
     [''HOST_DOMAIN'' \<mapsto> ''agent.example.org'', ''HOST_PORT'' \<mapsto> ''443'',
      ''HOST_WS_PATH'' \<mapsto> ''/ws'', ''DID_DOCUMENT_PATH'' \<mapsto> ''/var/lib/agent/did.json'',
      ''SSL_CERT_PATH'' \<mapsto> ''/etc/ssl/agent.crt'', ''SSL_KEY_PATH'' \<mapsto> ''/etc/ssl/agent.key'']"

section \<open>Properties of the tools\<close>

text \<open>
  C1. The three tools are to turn every failure of their one underlying call into the
  sentinel. \<open>receive_message\<close> has no handler: on a session whose receive call raises
  \<open>ConnectionResetError\<close> (an ordinary \<open>Exception\<close>), the exception leaves the tool,
  where its docstring promises \<open>None\<close> and its two siblings return their sentinel.
\<close>

theorem receive_message_propagates:
  "fst (receive_message broken_session) = Inl connection_reset
   \<and> is_Exception connection_reset
   \<and> fst (send_message broken_session (Text ''hello'')) = Inr False"
  by (simp add: receive_message_def send_message_def broken_session_def connection_reset_def)

text \<open>
  C6, as stated: whatever exception the node's connect call raises, \<open>connect_to_agent\<close>
  returns \<open>None\<close>. The handler is \<open>except Exception\<close>: a cancellation of the awaiting
  task (\<open>asyncio.CancelledError\<close>, not an \<open>Exception\<close>) leaves the tool.
\<close>

theorem connect_to_agent_cancelled_escapes:
  "connect_to_did cancelled_node ''did:example:unreachable'' = Inl cancelled
   \<and> fst (connect_to_agent cancelled_node ''did:example:unreachable'') = Inl cancelled
   \<and> fst (connect_to_agent cancelled_node ''did:example:unreachable'') \<noteq> Inr None"
  by (simp add: connect_to_agent_def cancelled_node_def cancelled_def)

text \<open>
  C6, amended: for every destination, if the connect call raises an instance of
  \<open>Exception\<close>, \<open>connect_to_agent\<close> returns \<open>None\<close>, no exception leaves it, and the
  failure shows only in the one line printed, which carries the exception's text.
\<close>

theorem connect_to_agent_failure_is_None:
  assumes "connect_to_did n destination_did = Inl e" and "is_Exception e"
  shows "connect_to_agent n destination_did =
           (Inr None, [''Failed to connect to agent: '' @ exc_text e])"
  using assms by (simp add: connect_to_agent_def)

theorem connect_to_agent_failure_is_None_witness:
  "connect_to_did refusing_node ''did:example:unreachable'' = Inl connection_reset
   \<and> is_Exception connection_reset
   \<and> connect_to_agent refusing_node ''did:example:unreachable'' =
       (Inr None, [''Failed to connect to agent: [Errno 104] Connection reset by peer''])"
proof -
  have raised: "connect_to_did refusing_node ''did:example:unreachable'' = Inl connection_reset"
    by (simp add: refusing_node_def)
  have ordinary: "is_Exception connection_reset"
    by (simp add: connection_reset_def)
  from connect_to_agent_failure_is_None [OF raised ordinary] raised ordinary
  show ?thesis by (simp add: connection_reset_def)
qed

text \<open>
  C7, as stated: \<open>send_message\<close> returns \<open>False\<close> whatever exception the session's send
  call raises. With \<open>except Exception\<close>, a \<open>CancelledError\<close> leaves the tool.
\<close>

theorem send_message_cancelled_escapes:
  "session_send_message cancelled_session (Text ''hello'') = Inl cancelled
   \<and> fst (send_message cancelled_session (Text ''hello'')) = Inl cancelled
   \<and> fst (send_message cancelled_session (Text ''hello'')) \<noteq> Inr False"
  by (simp add: send_message_def cancelled_session_def cancelled_def)

text \<open>
  C7, amended: for every session and message, \<open>send_message\<close> returns \<open>True\<close> exactly
  when the session's send call returns true; it returns \<open>False\<close> when that call returns
  false and when it raises an instance of \<open>Exception\<close>; in these cases no exception
  leaves the tool.
\<close>

theorem send_message_result:
  assumes "\<forall>e. session_send_message s m = Inl e \<longrightarrow> is_Exception e"
  shows "fst (send_message s m) = Inr (session_send_message s m = Inr True)"
  using assms by (cases "session_send_message s m") (simp_all add: send_message_def)

theorem send_message_result_witness:
  "session_send_message broken_session (Bytes ''ping'') = Inl connection_reset
   \<and> is_Exception connection_reset
   \<and> fst (send_message broken_session (Bytes ''ping'')) = Inr False
   \<and> session_send_message open_session (Bytes ''ping'') = Inr True
   \<and> fst (send_message open_session (Bytes ''ping'')) = Inr True"
proof -
  have a: "\<forall>e. session_send_message broken_session (Bytes ''ping'') = Inl e \<longrightarrow> is_Exception e"
    by (simp add: broken_session_def connection_reset_def)
  have b: "\<forall>e. session_send_message open_session (Bytes ''ping'') = Inl e \<longrightarrow> is_Exception e"
    by (simp add: open_session_def)
  from send_message_result [OF a] send_message_result [OF b]
  show ?thesis by (simp add: broken_session_def open_session_def connection_reset_def)
qed

text \<open>
  C9. \<open>connect_to_agent\<close> returns \<open>None\<close> or the very session the node's connect call
  returned: when that call returns a falsy value (\<open>None\<close>, or an object Python takes for
  false), the tool returns \<open>None\<close>; and a session returned by the tool is the one the
  node returned, and is truthy.
\<close>

theorem connect_to_agent_session:
  "(connect_to_did n d = Inr r \<and> (case r of None \<Rightarrow> True | Some s \<Rightarrow> \<not> session_bool s)
      \<longrightarrow> connect_to_agent n d = (Inr None, []))
   \<and> (fst (connect_to_agent n d) = Inr (Some s')
      \<longrightarrow> connect_to_did n d = Inr (Some s') \<and> session_bool s')"
  by (auto simp: connect_to_agent_def split: sum.splits option.splits if_splits)

theorem connect_to_agent_session_witness:
  "connect_to_did falsy_node ''did:example:bob'' = Inr (Some falsy_session)
   \<and> \<not> session_bool falsy_session
   \<and> connect_to_agent falsy_node ''did:example:bob'' = (Inr None, [])
   \<and> fst (connect_to_agent listening_node ''did:example:bob'') = Inr (Some open_session)
   \<and> connect_to_did listening_node ''did:example:bob'' = Inr (Some open_session)
   \<and> session_bool open_session"
proof -
  have a: "connect_to_did falsy_node ''did:example:bob'' = Inr (Some falsy_session)"
    by (simp add: falsy_node_def)
  have b: "\<not> session_bool falsy_session"
    by (simp add: falsy_session_def)
  have c: "fst (connect_to_agent listening_node ''did:example:bob'') = Inr (Some open_session)"
    by (simp add: connect_to_agent_def listening_node_def open_session_def broken_session_def)
  from connect_to_agent_session
         [of falsy_node "''did:example:bob''" "Some falsy_session" open_session]
       connect_to_agent_session
         [of listening_node "''did:example:bob''" None open_session]
       a b c
  show ?thesis by simp
qed

text \<open>
  C8. The TLS certificate and key paths are to reach the node's constructor. They are
  read from the environment and then dropped: with both variables set, the constructor
  call has neither a certificate nor a key argument, and no argument holds their values.
\<close>

theorem tls_paths_not_passed:
  "tls_environ ''SSL_CERT_PATH'' = Some ''/etc/ssl/agent.crt''
   \<and> tls_environ ''SSL_KEY_PATH'' = Some ''/etc/ssl/agent.key''
   \<and> map fst (simple_node_arguments tls_environ) =
       [''host_domain'', ''new_session_callback'', ''host_port'', ''host_ws_path'']
   \<and> Value (Some ''/etc/ssl/agent.crt'') \<notin> snd ` set (simple_node_arguments tls_environ)
   \<and> Value (Some ''/etc/ssl/agent.key'') \<notin> snd ` set (simple_node_arguments tls_environ)"
  by (simp add: simple_node_arguments_def tls_environ_def)

section \<open>Properties of the credential routine\<close>

subsection \<open>Paths\<close>

lemma ancestors_self: "d \<noteq> [] \<Longrightarrow> d \<in> set (ancestors d)"
  by (subst ancestors.simps) simp

lemma ancestors_length: "a \<in> set (ancestors d) \<Longrightarrow> length a \<le> length d"
proof (induction d rule: ancestors.induct)
  case (1 d)
  show ?case
  proof (cases "d \<noteq> [] \<and> length (dirname d) < length d")
    case True
    with "1.prems" have "a = d \<or> a \<in> set (ancestors (dirname d))"
      by (subst (asm) ancestors.simps) simp
    with True "1.IH" show ?thesis by fastforce
  next
    case False
    with "1.prems" show ?thesis
      by (subst (asm) ancestors.simps) (auto split: if_splits)
  qed
qed

lemma dirname_shorter:
  assumes "p \<noteq> []" and "last p \<noteq> CHR ''/''"
  shows "length (dirname p) < length p"
proof -
  from assms obtain c r where rp: "rev p = c # r" and c: "c \<noteq> CHR ''/''"
    by (cases "rev p") (auto simp: last_rev [symmetric] hd_rev)
  let ?h = "rev (dropWhile (\<lambda>c. c \<noteq> CHR ''/'') (rev p))"
  have "length ?h \<le> length r"
    using rp c length_dropWhile_le [of "\<lambda>c. c \<noteq> CHR ''/''" r] by simp
  moreover have "length r < length p"
    using rp by (metis length_Cons length_rev lessI)
  moreover have "length (rstrip_sep ?h) \<le> length ?h"
    using length_dropWhile_le [of "\<lambda>c. c = CHR ''/''" "rev ?h"]
    by (simp add: rstrip_sep_def del: rev_rev_ident)
  ultimately show ?thesis
    by (simp add: dirname_def Let_def del: length_rev)
qed

lemma path_not_above_itself:
  assumes "p \<noteq> []" and "last p \<noteq> CHR ''/''"
  shows "p \<notin> set (ancestors (dirname p))"
  using ancestors_length [of p "dirname p"] dirname_shorter [OF assms] by auto

lemma dirname_bare: "CHR ''/'' \<notin> set p \<Longrightarrow> dirname p = []"
proof -
  assume "CHR ''/'' \<notin> set p"
  then have "dropWhile (\<lambda>c. c \<noteq> CHR ''/'') (rev p) = []"
    by auto
  then show ?thesis by (simp add: dirname_def)
qed

lemma makedirs_ok:
  assumes "d \<noteq> []" and "\<not> list_ex (is_file f) (ancestors d)"
  shows "makedirs f d = Inr (\<lambda>p. if p \<in> set (ancestors d) then Some Dir else f p)"
proof -
  from assms have "\<not> is_file f d"
    using ancestors_self [of d] by (auto simp: list_ex_iff)
  with assms show ?thesis by (simp add: makedirs_def)
qed

lemma components_nonempty: "components p \<noteq> []"
  by (induction p) (auto split: list.splits)

lemma components_single: "components p = [x] \<Longrightarrow> x = p \<and> CHR ''/'' \<notin> set p"
proof (induction p arbitrary: x)
  case Nil
  then show ?case by simp
next
  case (Cons c cs)
  show ?case
  proof (cases "c = CHR ''/''")
    case True
    with Cons.prems show ?thesis
      using components_nonempty [of cs] by simp
  next
    case False
    with Cons.prems obtain y where "components cs = [y]" and "x = c # y"
      using components_nonempty [of cs] by (auto split: list.splits)
    with Cons.IH [of y] False show ?thesis by simp
  qed
qed

lemma basename_empty: "basename p = [] \<longleftrightarrow> p = [] \<or> last p = CHR ''/''"
proof (induction p)
  case Nil
  show ?case by (simp add: basename_def)
next
  case (Cons c cs)
  obtain x xs where split: "components cs = x # xs"
    using components_nonempty [of cs] by (cases "components cs") auto
  show ?case
  proof (cases "c = CHR ''/''")
    case True
    with Cons.IH split show ?thesis
      by (auto simp: basename_def)
  next
    case False
    show ?thesis
    proof (cases xs)
      case Nil
      with split have "CHR ''/'' \<notin> set cs"
        using components_single [of cs x] by simp
      then have "cs \<noteq> [] \<Longrightarrow> last cs \<noteq> CHR ''/''"
        by (metis last_in_set)
      with False split Nil show ?thesis
        by (auto simp: basename_def)
    next
      case (Cons y ys)
      with Cons.IH split False have "basename (c # cs) = basename cs"
        by (simp add: basename_def)
      moreover from split Cons have "cs \<noteq> []"
        by auto
      ultimately show ?thesis
        using Cons.IH by simp
    qed
  qed
qed

lemma normal_path_basename:
  assumes "normal_path p"
  shows "basename p \<noteq> [] \<and> basename p \<noteq> ''.'' \<and> basename p \<noteq> ''..''"
proof -
  let ?ok = "\<lambda>c. c \<noteq> [] \<and> c \<noteq> ''.'' \<and> c \<noteq> ''..''"
  from assms obtain c cs where p: "p = c # cs"
    by (cases p) (auto simp: normal_path_def)
  show ?thesis
  proof (cases "c = CHR ''/''")
    case True
    with assms p have "list_all ?ok (components cs)"
      by (simp add: normal_path_def)
    moreover have "basename p = last (components cs)"
      using True p components_nonempty [of cs] by (simp add: basename_def)
    ultimately show ?thesis
      using last_in_set [OF components_nonempty [of cs]] by (auto simp: list_all_iff)
  next
    case False
    with assms p have "list_all ?ok (components p)"
      by (simp add: normal_path_def)
    then show ?thesis
      using last_in_set [OF components_nonempty [of p]]
      by (auto simp: list_all_iff basename_def)
  qed
qed

lemma normal_path_file: "normal_path p \<Longrightarrow> p \<noteq> [] \<and> last p \<noteq> CHR ''/''"
  using normal_path_basename [of p] basename_empty [of p] by simp

lemma dirname_nested: "dirname ''/srv/agent/did.json'' = ''/srv/agent''"
  by (simp add: dirname_def rstrip_sep_def)

lemma dirname_srv: "dirname ''/srv/did.json'' = ''/srv''"
  by (simp add: dirname_def rstrip_sep_def)

subsection \<open>The two branches\<close>

lemma generate_did_info_new:
  assumes absent: "\<not> path_exists (fs w) did_document_path"
    and dir: "dirname did_document_path \<noteq> []"
    and normal: "normal_path did_document_path"
    and clear: "\<not> list_ex (is_file (fs w)) (ancestors (dirname did_document_path))"
    and gen: "did_source n (generated n) = (private_key_pem, did, did_document_json)"
  shows "generate_did_info lib n did_document_path w =
           (Inr (),
            n\<lparr>identity := Some (JString private_key_pem, JString did, JString did_document_json),
              generated := Suc (generated n)\<rparr>,
            \<lparr>fs = (\<lambda>p. if p \<in> set (ancestors (dirname did_document_path)) then Some Dir
                       else fs w p)
                  (did_document_path \<mapsto>
                     File (json_dumps lib
                       (JObject [(''private_key_pem'', JString private_key_pem),
                                 (''did'', JString did),
                                 (''did_document_json'', JString did_document_json)]))),
             stdout = stdout w @ [''Generating new DID information'',
                                  ''DID information saved to '' @ did_document_path]\<rparr>)"
proof -
  let ?d = "dirname did_document_path"
  let ?f2 = "\<lambda>p. if p \<in> set (ancestors ?d) then Some Dir else fs w p"
  from normal have nonempty: "did_document_path \<noteq> []"
    and name: "last did_document_path \<noteq> CHR ''/''"
    by (simp_all add: normal_path_file)
  have made: "makedirs (fs w) ?d = Inr ?f2"
    using dir clear by (rule makedirs_ok)
  have parent: "?f2 ?d = Some Dir"
    using ancestors_self [OF dir] by simp
  have "did_document_path \<notin> set (ancestors ?d)"
    using nonempty name by (rule path_not_above_itself)
  with absent nonempty have free: "?f2 did_document_path = None"
    by (simp add: path_exists_def)
  have written: "write_file ?f2 did_document_path t = Inr (?f2(did_document_path \<mapsto> File t))"
    for t
    using nonempty dir parent free normal_path_basename [OF normal]
    by (simp add: write_file_def is_file_def)
  show ?thesis
    using absent gen
    by (simp add: generate_did_info_def generate_did_document_def set_did_info_def
        print_def Let_def made written)
qed

lemma generate_did_info_load:
  assumes "did_document_path \<noteq> []"
    and "fs w did_document_path = Some (File text)"
    and "json_loads lib text = Some (JObject items)"
    and "map_of items ''private_key_pem'' = Some private_key_pem"
    and "map_of items ''did'' = Some did"
    and "map_of items ''did_document_json'' = Some did_document_json"
  shows "generate_did_info lib n did_document_path w =
           (Inr (),
            n\<lparr>identity := Some (private_key_pem, did, did_document_json)\<rparr>,
            w\<lparr>stdout := stdout w @ [''Loading existing DID information from '' @ did_document_path]\<rparr>)"
  using assms
  by (simp add: generate_did_info_def path_exists_def print_def open_read_def json_load_def
      subscript_def set_did_info_def Let_def)



text \<open>
  A path whose last component is \<open>.\<close> names a directory: once \<open>a\<close> is made,
  \<open>open('a/.', 'w')\<close> raises \<open>IsADirectoryError\<close>, and nothing is written.
\<close>

lemma generate_did_info_dot_component:
  "fst (generate_did_info demo_json refusing_node ''a/.'' empty_world) = Inl IsADirectoryError"
  by (simp add: generate_did_info_def path_exists_def empty_world_def print_def
      generate_did_document_def refusing_node_def dirname_def rstrip_sep_def makedirs_def
      is_file_def ancestors.simps write_file_def basename_def Let_def set_did_info_def)

subsection \<open>The claims\<close>

text \<open>
  C2, as stated: at every path where no file exists, the routine creates the parent
  directories and writes the record. Where a regular file stands in the place of the
  parent directory, \<open>os.makedirs\<close> raises \<open>FileExistsError\<close>, which the routine
  lets through as a storage failure: nothing is written.
\<close>

theorem generate_did_info_blocked:
  "\<not> path_exists (fs blocked_world) ''/srv/did.json''
   \<and> fst (generate_did_info demo_json refusing_node ''/srv/did.json'' blocked_world) =
       Inl FileExistsError
   \<and> fs (snd (snd (generate_did_info demo_json refusing_node ''/srv/did.json'' blocked_world)))
       ''/srv/did.json'' = None"
  by (simp add: generate_did_info_def dirname_srv makedirs_def is_file_def path_exists_def
      print_def blocked_world_def generate_did_document_def refusing_node_def Let_def)

text \<open>
  C2, amended: for every path in normal form that has a directory part, with nothing at
  the path and no regular file at its directory or above it, the routine asks the node
  for a fresh identity, gives it to the node, makes the directory of the path and every
  directory above it, and writes at the path the record with exactly the fields
  \<open>private_key_pem\<close>, \<open>did\<close> and \<open>did_document_json\<close>, whose values are the
  identity given to the node. (A path without a directory part is left out here.)
\<close>

theorem generate_did_info_creates:
  assumes "\<not> path_exists (fs w) did_document_path"
    and "dirname did_document_path \<noteq> []"
    and "normal_path did_document_path"
    and "\<not> list_ex (is_file (fs w)) (ancestors (dirname did_document_path))"
    and "generate_did_document n = ((private_key_pem, did, did_document_json), n1)"
  shows "\<exists>w'. generate_did_info lib n did_document_path w =
                 (Inr (),
                  set_did_info n1 (JString private_key_pem) (JString did)
                    (JString did_document_json),
                  w')
             \<and> (\<forall>d \<in> set (ancestors (dirname did_document_path)). fs w' d = Some Dir)
             \<and> fs w' did_document_path =
                 Some (File (json_dumps lib
                   (JObject [(''private_key_pem'', JString private_key_pem),
                             (''did'', JString did),
                             (''did_document_json'', JString did_document_json)])))"
proof -
  from assms(5) have gen: "did_source n (generated n) = (private_key_pem, did, did_document_json)"
    and n1: "n1 = n\<lparr>generated := Suc (generated n)\<rparr>"
    by (auto simp: generate_did_document_def)
  have above: "did_document_path \<notin> set (ancestors (dirname did_document_path))"
    using normal_path_file [OF assms(3)] by (intro path_not_above_itself) simp_all
  show ?thesis
    unfolding generate_did_info_new [OF assms(1-4) gen]
    using above by (auto simp: n1 set_did_info_def)
qed

theorem generate_did_info_creates_witness:
  "\<not> path_exists (fs empty_world) ''/srv/agent/did.json''
   \<and> dirname ''/srv/agent/did.json'' \<noteq> []
   \<and> normal_path ''/srv/agent/did.json''
   \<and> \<not> list_ex (is_file (fs empty_world)) (ancestors (dirname ''/srv/agent/did.json''))
   \<and> generate_did_document refusing_node =
       ((''key'', ''did:example:alice'', ''{}''), refusing_node\<lparr>generated := Suc 0\<rparr>)
   \<and> fst (generate_did_info demo_json refusing_node ''/srv/agent/did.json'' empty_world) = Inr ()
   \<and> fst (snd (generate_did_info demo_json refusing_node ''/srv/agent/did.json'' empty_world)) =
       alice_node
   \<and> fs (snd (snd (generate_did_info demo_json refusing_node ''/srv/agent/did.json'' empty_world)))
       ''/srv/agent/did.json'' =
       Some (File ''{private_key_pem: key, did: did:example:alice, did_document_json: {}}'')
   \<and> fs (snd (snd (generate_did_info demo_json refusing_node ''/srv/agent/did.json'' empty_world)))
       ''/srv/agent'' = Some Dir"
proof -
  have a: "\<not> path_exists (fs empty_world) ''/srv/agent/did.json''"
    by (simp add: path_exists_def empty_world_def)
  have b: "dirname ''/srv/agent/did.json'' \<noteq> []"
    by (simp add: dirname_nested)
  have c: "normal_path ''/srv/agent/did.json''"
    by (simp add: normal_path_def)
  have d: "\<not> list_ex (is_file (fs empty_world)) (ancestors (dirname ''/srv/agent/did.json''))"
    by (simp add: list_ex_iff is_file_def empty_world_def)
  have e: "generate_did_document refusing_node =
      ((''key'', ''did:example:alice'', ''{}''), refusing_node\<lparr>generated := Suc 0\<rparr>)"
    by (simp add: generate_did_document_def refusing_node_def)
  have f: "''/srv/agent'' \<in> set (ancestors (dirname ''/srv/agent/did.json''))"
    by (simp add: dirname_nested ancestors_self)
  from generate_did_info_creates [OF a b c d e, of demo_json] a b c d e f
  show ?thesis
    by (auto simp: set_did_info_def alice_node_def refusing_node_def demo_json_def
        alice_record_def)
qed

text \<open>
  C10. In the branch that generates, the routine calls \<open>os.makedirs\<close> on
  \<open>os.path.dirname(did_document_path)\<close> without looking at it. For a path without a
  separator and with nothing stored under it, that directory name is empty,
  \<open>os.makedirs\<close> raises \<open>FileNotFoundError\<close>, and the routine ends there: the fresh
  identity has been given to the node, the file system is as before, and only the first
  line has been printed.
\<close>

theorem generate_did_info_bare_filename:
  assumes "CHR ''/'' \<notin> set did_document_path"
    and "\<not> path_exists (fs w) did_document_path"
    and "generate_did_document n = ((private_key_pem, did, did_document_json), n1)"
  shows "dirname did_document_path = []
         \<and> makedirs (fs w) (dirname did_document_path) = Inl FileNotFoundError
         \<and> generate_did_info lib n did_document_path w =
             (Inl FileNotFoundError,
              set_did_info n1 (JString private_key_pem) (JString did)
                (JString did_document_json),
              print ''Generating new DID information'' w)
         \<and> fs (print ''Generating new DID information'' w) = fs w"
proof -
  have d: "dirname did_document_path = []"
    using assms(1) by (rule dirname_bare)
  have m: "makedirs f [] = Inl FileNotFoundError" for f
    by (simp add: makedirs_def)
  show ?thesis
    using assms(2,3)
    by (simp add: d m generate_did_info_def print_def Let_def)
qed

theorem generate_did_info_bare_filename_witness:
  "CHR ''/'' \<notin> set ''did.json''
   \<and> \<not> path_exists (fs empty_world) ''did.json''
   \<and> generate_did_document refusing_node =
       ((''key'', ''did:example:alice'', ''{}''), refusing_node\<lparr>generated := Suc 0\<rparr>)
   \<and> generate_did_info demo_json refusing_node ''did.json'' empty_world =
       (Inl FileNotFoundError, alice_node,
        \<lparr>fs = Map.empty, stdout = [''Generating new DID information'']\<rparr>)"
proof -
  have a: "CHR ''/'' \<notin> set ''did.json''"
    by simp
  have b: "\<not> path_exists (fs empty_world) ''did.json''"
    by (simp add: path_exists_def empty_world_def)
  have c: "generate_did_document refusing_node =
      ((''key'', ''did:example:alice'', ''{}''), refusing_node\<lparr>generated := Suc 0\<rparr>)"
    by (simp add: generate_did_document_def refusing_node_def)
  from generate_did_info_bare_filename [OF a b c, of demo_json] a b c
  show ?thesis
    by (simp add: set_did_info_def alice_node_def refusing_node_def print_def empty_world_def)
qed

text \<open>
  C3. For every path at which a file holds a valid record (its text parses to an object
  with the three fields), the routine gives the node the three values of that object,
  returns normally, and leaves the file system as it was: only a line is printed.
\<close>

theorem generate_did_info_loads:
  assumes "did_document_path \<noteq> []"
    and "fs w did_document_path = Some (File text)"
    and "json_loads lib text = Some (JObject items)"
    and "map_of items ''private_key_pem'' = Some private_key_pem"
    and "map_of items ''did'' = Some did"
    and "map_of items ''did_document_json'' = Some did_document_json"
  shows "generate_did_info lib n did_document_path w =
           (Inr (),
            set_did_info n private_key_pem did did_document_json,
            print (''Loading existing DID information from '' @ did_document_path) w)
         \<and> fs (print (''Loading existing DID information from '' @ did_document_path) w) = fs w"
  using generate_did_info_load [OF assms] by (simp add: set_did_info_def print_def)

theorem generate_did_info_loads_witness:
  "''/srv/did.json'' \<noteq> []
   \<and> fs stored_world ''/srv/did.json'' =
       Some (File ''{private_key_pem: key, did: did:example:alice, did_document_json: {}}'')
   \<and> json_loads demo_json
         ''{private_key_pem: key, did: did:example:alice, did_document_json: {}}'' =
       Some (JObject [(''private_key_pem'', JString ''key''),
                      (''did'', JString ''did:example:alice''),
                      (''did_document_json'', JString ''{}'')])
   \<and> generate_did_info demo_json refusing_node ''/srv/did.json'' stored_world =
       (Inr (),
        refusing_node
          \<lparr>identity := Some (JString ''key'', JString ''did:example:alice'', JString ''{}'')\<rparr>,
        stored_world\<lparr>stdout := [''Loading existing DID information from /srv/did.json'']\<rparr>)"
proof -
  have a: "''/srv/did.json'' \<noteq> []"
    by simp
  have b: "fs stored_world ''/srv/did.json'' =
      Some (File ''{private_key_pem: key, did: did:example:alice, did_document_json: {}}'')"
    by (simp add: stored_world_def)
  have c: "json_loads demo_json
        ''{private_key_pem: key, did: did:example:alice, did_document_json: {}}'' =
      Some (JObject [(''private_key_pem'', JString ''key''),
                     (''did'', JString ''did:example:alice''),
                     (''did_document_json'', JString ''{}'')])"
    by (simp add: demo_json_def alice_record_def)
  have d: "map_of [(''private_key_pem'', JString ''key''),
                   (''did'', JString ''did:example:alice''),
                   (''did_document_json'', JString ''{}'')] ''private_key_pem'' =
           Some (JString ''key'')"
    by simp
  have e: "map_of [(''private_key_pem'', JString ''key''),
                   (''did'', JString ''did:example:alice''),
                   (''did_document_json'', JString ''{}'')] ''did'' =
           Some (JString ''did:example:alice'')"
    by simp
  have f: "map_of [(''private_key_pem'', JString ''key''),
                   (''did'', JString ''did:example:alice''),
                   (''did_document_json'', JString ''{}'')] ''did_document_json'' =
           Some (JString ''{}'')"
    by simp
  from generate_did_info_loads [OF a b c d e f, of refusing_node] a b c
  show ?thesis
    by (simp add: set_did_info_def print_def stored_world_def)
qed

text \<open>
  C4. For every path at which a file holds a text that is not a valid record (it does not
  parse, or parses to a value without one of the three fields), the routine ends with an
  exception of the kind the specification calls \<open>MalformedCredentialError\<close>
  (\<open>JSONDecodeError\<close>, \<open>KeyError\<close> or \<open>TypeError\<close>); the node has been given no
  identity and the file system is as before.
\<close>

theorem generate_did_info_malformed:
  assumes "did_document_path \<noteq> []"
    and "fs w did_document_path = Some (File text)"
    and "\<not> valid_record lib text"
  shows "\<exists>e. MalformedCredentialError e
             \<and> generate_did_info lib n did_document_path w =
                 (Inl e, n,
                  w\<lparr>stdout := stdout w @ [''Loading existing DID information from '' @ did_document_path]\<rparr>)"
proof (cases "json_loads lib text")
  case None
  with assms(1,2) have "generate_did_info lib n did_document_path w =
      (Inl JSONDecodeError, n,
       w\<lparr>stdout := stdout w @ [''Loading existing DID information from '' @ did_document_path]\<rparr>)"
    by (simp add: generate_did_info_def path_exists_def print_def open_read_def json_load_def
        Let_def)
  then show ?thesis by (simp add: MalformedCredentialError_def)
next
  case (Some v)
  with assms(3) have bad: "\<not> has_required_fields v"
    by (simp add: valid_record_def)
  have "\<exists>e. MalformedCredentialError e \<and>
      (case subscript v ''private_key_pem'' of
         Inl e' \<Rightarrow> Inl e'
       | Inr a \<Rightarrow>
      (case subscript v ''did'' of
         Inl e' \<Rightarrow> Inl e'
       | Inr b \<Rightarrow>
      (case subscript v ''did_document_json'' of
         Inl e' \<Rightarrow> Inl e'
       | Inr c \<Rightarrow> Inr (a, b, c)))) = Inl e"
    using bad
    by (cases v)
       (auto simp: has_required_fields_def subscript_def MalformedCredentialError_def
             split: option.splits)
  then obtain e where e: "MalformedCredentialError e"
    and sub: "(case subscript v ''private_key_pem'' of
         Inl e' \<Rightarrow> Inl e'
       | Inr a \<Rightarrow>
      (case subscript v ''did'' of
         Inl e' \<Rightarrow> Inl e'
       | Inr b \<Rightarrow>
      (case subscript v ''did_document_json'' of
         Inl e' \<Rightarrow> Inl e'
       | Inr c \<Rightarrow> Inr (a, b, c)))) = Inl e"
    by blast
  from sub assms(1,2) Some have "generate_did_info lib n did_document_path w =
      (Inl e, n,
       w\<lparr>stdout := stdout w @ [''Loading existing DID information from '' @ did_document_path]\<rparr>)"
    by (auto simp: generate_did_info_def path_exists_def print_def open_read_def json_load_def
        Let_def split: sum.splits)
  with e show ?thesis by blast
qed

theorem generate_did_info_malformed_witness:
  "''/srv/did.json'' \<noteq> []
   \<and> fs truncated_world ''/srv/did.json'' = Some (File ''{priv'')
   \<and> \<not> valid_record demo_json ''{priv''
   \<and> fs incomplete_world ''/srv/did.json'' = Some (File ''{did: did:example:alice}'')
   \<and> \<not> valid_record demo_json ''{did: did:example:alice}''
   \<and> generate_did_info demo_json refusing_node ''/srv/did.json'' truncated_world =
       (Inl JSONDecodeError, refusing_node,
        truncated_world\<lparr>stdout := [''Loading existing DID information from /srv/did.json'']\<rparr>)
   \<and> generate_did_info demo_json refusing_node ''/srv/did.json'' incomplete_world =
       (Inl (KeyError ''private_key_pem''), refusing_node,
        incomplete_world\<lparr>stdout := [''Loading existing DID information from /srv/did.json'']\<rparr>)"
proof -
  have a: "''/srv/did.json'' \<noteq> []"
    by simp
  have b: "fs truncated_world ''/srv/did.json'' = Some (File ''{priv'')"
    by (simp add: truncated_world_def)
  have c: "\<not> valid_record demo_json ''{priv''"
    by (simp add: valid_record_def demo_json_def)
  have d: "fs incomplete_world ''/srv/did.json'' = Some (File ''{did: did:example:alice}'')"
    by (simp add: incomplete_world_def)
  have e: "\<not> valid_record demo_json ''{did: did:example:alice}''"
    by (simp add: valid_record_def demo_json_def has_required_fields_def)
  have load: "json_load demo_json ''{priv'' = Inl JSONDecodeError"
    by (simp add: json_load_def demo_json_def)
  have part: "json_load demo_json ''{did: did:example:alice}'' =
      Inr (JObject [(''did'', JString ''did:example:alice'')])"
    by (simp add: json_load_def demo_json_def)
  have sub: "subscript (JObject [(''did'', JString ''did:example:alice'')]) ''private_key_pem'' =
      Inl (KeyError ''private_key_pem'')"
    by (simp add: subscript_def)
  from generate_did_info_malformed [OF a b c, of refusing_node]
    generate_did_info_malformed [OF a d e, of refusing_node] a b c d e
  show ?thesis
    by (simp add: generate_did_info_def path_exists_def print_def open_read_def load part sub
        truncated_world_def incomplete_world_def)
qed



end
